theory Spec2Isabelle
  imports Main "HOL-Library.Word" "HOL-Library.Signed_Division" "HOL-Library.Sublist"
begin

unbundle bit_operations_syntax

section \<open>Wire data model (models/CommunicationModels.go)\<close>

type_synonym byte = "8 word"
type_synonym bytes = "byte list"


record File =
  File_Name :: string
  File_Size :: "64 word"
  File_MetafileHash :: bytes

record TxPublish =
  Tx_File :: File
  Tx_HopLimit :: "32 word"

record Block =
  PrevHash :: bytes
  Nonce :: bytes
  Transactions :: "TxPublish list"

datatype error = IndexOutOfRange | DivideByZero | NilDereference | InvalidArgument | OutsideModel

section \<open>Hashing\<close>







text \<open>
  \<open>copy(out[:], src)\<close> into a fresh \<open>[32]byte\<close>: the first 32 bytes of \<open>src\<close>, the rest of
  the array keeps its zero value.
\<close>

definition copy32 :: "bytes \<Rightarrow> bytes" where
  "copy32 src = take 32 src @ replicate (32 - length src) 0"






text \<open>
  A digest used to instantiate the parameter \<open>sha256\<close> at concrete inputs: 32 bytes, the
  last one the length of the input.
\<close>

definition length_digest :: "bytes \<Rightarrow> bytes" where
  "length_digest x = replicate 31 0 @ [of_nat (length x)]"


section \<open>Go integers\<close>

text \<open>
  \<open>int\<close> is the 64-bit signed integer of the platform. Local \<open>int\<close> variables are modelled
  as mathematical integers, with the wrap-around of the arithmetic written out by
  \<open>int64_wrap\<close>; \<open>/\<close> and \<open>%\<close> truncate towards zero (\<open>sdiv\<close>, \<open>smod\<close>) and panic on a zero
  divisor.
\<close>

definition int64_wrap :: "int \<Rightarrow> int" where
  "int64_wrap i = sint (word_of_int i :: 64 word)"

text \<open>The conversions \<open>int(x)\<close> of a \<open>uint64\<close> and \<open>uint64(i)\<close> of an \<open>int\<close>.\<close>

definition int_of_uint64 :: "64 word \<Rightarrow> int" where
  "int_of_uint64 w = sint w"

definition uint64_of_int :: "int \<Rightarrow> 64 word" where
  "uint64_of_int i = word_of_int i"

section \<open>Gossip packets\<close>

text \<open>A peer address is identified by its string form \<open>ip:port\<close>, as the code compares them.\<close>

type_synonym UDPAddr = string

record RumorMessage =
  OriginalName :: string
  ID :: "32 word"
  Text :: string

record PeerStatus =
  Identifier :: string
  NextID :: "32 word"

record SearchRequest =
  SReq_Origin :: string
  SReq_Budget :: "64 word"
  SReq_Keywords :: "string list"

record SearchResult =
  FileName :: string
  MetafileHash :: bytes
  ChunkMap :: "64 word list"
  ChunkCount :: "64 word"

record SearchReply =
  SRep_Origin :: string
  SRep_Destination :: string
  SRep_HopLimit :: "32 word"
  SRep_Results :: "SearchResult list"

text \<open>The packet variants the modelled dispatcher paths send.\<close>

datatype GossipPacket =
    GP_Rumor RumorMessage
  | GP_Status "PeerStatus list"
  | GP_SearchRequest SearchRequest
  | GP_SearchReply SearchReply

text \<open>An addressed packet (\<open>Address\<close>, \<open>Packet\<close>); a list of them is what a call enqueues on
  \<open>peerMessagesToSend\<close>, in order.\<close>

type_synonym AddressedGossipPacket = "UDPAddr \<times> GossipPacket"

section \<open>The gossiper's search-request path\<close>

text \<open>
  The part of the \<open>Gossiper\<close> the search path reads. The shared-files and downloading-files
  managers are not among the sources; their \<open>GetSearchResults\<close> are fields of the record.
\<close>

record Gossiper =
  g_name :: string
  g_peers :: "UDPAddr list"
  g_nextHop :: "string \<rightharpoonup> UDPAddr"
  g_sharedGetSearchResults :: "string list \<Rightarrow> SearchResult list"
  g_downloadingGetSearchResults :: "string list \<Rightarrow> SearchResult list"

definition sendPacketWithNextHop ::
  "(string \<rightharpoonup> UDPAddr) \<Rightarrow> string \<Rightarrow> GossipPacket \<Rightarrow> AddressedGossipPacket list" where
  "sendPacketWithNextHop nextHop origin gp =
     (case nextHop origin of Some a \<Rightarrow> [(a, gp)] | None \<Rightarrow> [])"

text \<open>
  The \<open>range g.peers\<close> loop of \<open>processSearchRequest\<close>; \<open>n\<close> is \<open>len(g.peers)\<close>, not zero
  here. \<open>newbudget++\<close> and \<open>residual--\<close> run only while \<open>residual > 0\<close>, where neither
  can leave the 64-bit range.
\<close>

fun forward_loop ::
  "SearchRequest \<Rightarrow> int \<Rightarrow> int \<Rightarrow> int \<Rightarrow> UDPAddr list \<Rightarrow> AddressedGossipPacket list" where
  "forward_loop srqmsg budget n residual [] = []"
| "forward_loop srqmsg budget n residual (peer # ps) =
     (let newbudget = budget sdiv n;
          (newbudget, residual) =
             (if residual > 0 then (newbudget + 1, residual - 1) else (newbudget, residual));
          agp = (peer, GP_SearchRequest
                  \<lparr>SReq_Origin = SReq_Origin srqmsg, SReq_Budget = uint64_of_int newbudget,
                   SReq_Keywords = SReq_Keywords srqmsg\<rparr>)
      in agp # forward_loop srqmsg budget n residual ps)"

text \<open>The block "send search request further": \<open>budget % len(g.peers)\<close> panics without peers.\<close>

definition forwardSearchRequest ::
  "SearchRequest \<Rightarrow> int \<Rightarrow> UDPAddr list \<Rightarrow> error + AddressedGossipPacket list" where
  "forwardSearchRequest srqmsg budget peers =
     (let n = int (length peers) in
      if n = 0 then Inl DivideByZero
      else Inr (forward_loop srqmsg budget n (budget smod n) peers))"

definition processSearchRequest ::
  "32 word \<Rightarrow> Gossiper \<Rightarrow> SearchRequest \<Rightarrow> error + AddressedGossipPacket list" where
  "processSearchRequest DefaultHopLimit g srqmsg =
     (let gossiperName = g_name g;
          budget = int_of_uint64 (SReq_Budget srqmsg)
      in if SReq_Origin srqmsg \<noteq> gossiperName then
           (let sharedMatchedFiles = g_sharedGetSearchResults g (SReq_Keywords srqmsg);
                downloadedMatchedFiles = g_downloadingGetSearchResults g (SReq_Keywords srqmsg);
                matchedFiles = sharedMatchedFiles @ downloadedMatchedFiles;
                reply = (if length matchedFiles > 0
                         then sendPacketWithNextHop (g_nextHop g) (SReq_Origin srqmsg)
                                (GP_SearchReply
                                  \<lparr>SRep_Origin = gossiperName, SRep_Destination = SReq_Origin srqmsg,
                                   SRep_HopLimit = DefaultHopLimit, SRep_Results = matchedFiles\<rparr>)
                         else []);
                budget = int64_wrap (budget - 1)
            in if budget \<le> 0 then Inr reply
               else (case forwardSearchRequest srqmsg budget (g_peers g) of
                       Inl e \<Rightarrow> Inl e
                     | Inr sent \<Rightarrow> Inr (reply @ sent)))
         else forwardSearchRequest srqmsg budget (g_peers g))"

section \<open>The search goroutine (startFileSearchingGoroutine)\<close>

text \<open>
  Modelled from the spec: the type \<open>FullSearchMatch\<close>, whose declaration is not among the
  sources. "The growing list of full matches (origin, filename, metahash)".
\<close>

record FullSearchMatch =
  FSM_Origin :: string
  FSM_Filename :: string
  FSM_MetafileHash :: bytes

record CurrentSearchRequest =
  fullMatches :: "FullSearchMatch list"
  isAlive :: bool

definition InitCurrentSearchRequest :: CurrentSearchRequest where
  "InitCurrentSearchRequest = \<lparr>fullMatches = [], isAlive = True\<rparr>"



definition Shutdown :: "CurrentSearchRequest \<Rightarrow> CurrentSearchRequest" where
  "Shutdown csr = csr\<lparr>isAlive := False\<rparr>"

text \<open>
  Modelled from the spec: \<open>GetTypeStrictHash\<close> of the utilities, which are not among the
  sources. "All hashes in the protocol are 32 bytes": a slice of 32 bytes converts to the
  array, any other length is an error.
\<close>

definition GetTypeStrictHash :: "bytes \<Rightarrow> error + bytes" where
  "GetTypeStrictHash h = (if length h = 32 then Inr h else Inl InvalidArgument)"

text \<open>
  The local state of the goroutine: \<open>budget\<close>, \<open>maxAllowedBudget\<close>, the current search
  request it updates, and whether it has returned.
\<close>

record search_goroutine =
  sg_budget :: int
  sg_maxAllowedBudget :: int
  sg_csr :: CurrentSearchRequest
  sg_returned :: bool

text \<open>The prologue; the two constants are \<open>FileSearchStartBudget\<close> and \<open>FileSearchMaxBudget\<close>
  of the configuration.\<close>

definition startFileSearchingGoroutine :: "int \<Rightarrow> int \<Rightarrow> int \<Rightarrow> search_goroutine" where
  "startFileSearchingGoroutine FileSearchStartBudget FileSearchMaxBudget budget =
     (if budget = 0
      then \<lparr>sg_budget = FileSearchStartBudget, sg_maxAllowedBudget = FileSearchMaxBudget,
            sg_csr = InitCurrentSearchRequest, sg_returned = False\<rparr>
      else \<lparr>sg_budget = budget, sg_maxAllowedBudget = budget,
            sg_csr = InitCurrentSearchRequest, sg_returned = False\<rparr>)"

text \<open>The case \<open><-ticker.C\<close>: the request to dispatch, if one is sent, and the new state.\<close>

definition search_tick ::
  "string \<Rightarrow> string list \<Rightarrow> search_goroutine \<Rightarrow> SearchRequest option \<times> search_goroutine" where
  "search_tick name keywords s =
     (if sg_budget s > sg_maxAllowedBudget s then
        (if sg_budget s > int64_wrap (sg_maxAllowedBudget s + 1)
         then (None, s\<lparr>sg_csr := Shutdown (sg_csr s), sg_returned := True\<rparr>)
         else (None, s\<lparr>sg_budget := int64_wrap (sg_budget s + 1)\<rparr>))
      else (Some \<lparr>SReq_Origin = name, SReq_Budget = uint64_of_int (sg_budget s),
                  SReq_Keywords = keywords\<rparr>,
            s\<lparr>sg_budget := int64_wrap (sg_budget s + 1)\<rparr>))"





text \<open>
  One tick of the goroutine on a node: the request it builds is processed by
  \<open>processSearchRequest\<close> in the same goroutine, whose panic ends the process.
\<close>

definition search_tick_dispatch ::
  "32 word \<Rightarrow> Gossiper \<Rightarrow> string list \<Rightarrow> search_goroutine
     \<Rightarrow> error + (AddressedGossipPacket list \<times> search_goroutine)" where
  "search_tick_dispatch DefaultHopLimit g keywords s =
     (case search_tick (g_name g) keywords s of
        (None, s') \<Rightarrow> Inr ([], s')
      | (Some rq, s') \<Rightarrow>
          (case processSearchRequest DefaultHopLimit g rq of
             Inl e \<Rightarrow> Inl e
           | Inr sent \<Rightarrow> Inr (sent, s')))"

text \<open>
  \<open>processClientSearchRequest\<close>: refused while a search is alive; otherwise the goroutine
  is started with \<open>int(csrqmsg.Budget)\<close>.
\<close>

record ClientToSearchMessage =
  CTS_Keywords :: "string list"
  CTS_Budget :: "64 word"

definition processClientSearchRequest ::
  "int \<Rightarrow> int \<Rightarrow> CurrentSearchRequest option \<Rightarrow> ClientToSearchMessage \<Rightarrow> search_goroutine option" where
  "processClientSearchRequest FileSearchStartBudget FileSearchMaxBudget currentSearchRequest csrqmsg =
     (case currentSearchRequest of
        Some csr \<Rightarrow>
          (if isAlive csr then None
           else Some (startFileSearchingGoroutine FileSearchStartBudget FileSearchMaxBudget
                        (int_of_uint64 (CTS_Budget csrqmsg))))
      | None \<Rightarrow>
          Some (startFileSearchingGoroutine FileSearchStartBudget FileSearchMaxBudget
                  (int_of_uint64 (CTS_Budget csrqmsg))))"

section \<open>The rumor path of the dispatcher\<close>

text \<open>
  Modelled from the spec: the message store (\<open>MessageStorage\<close> is not among the sources).
  "Ordered-per-origin log of rumors": per origin the ids are dense from 1, a rumor is new
  exactly when its id is the next id of its origin, anything else is discarded, and the
  status maps every known origin to its next id.
\<close>

type_synonym MessageStorage = "RumorMessage list"

definition GetNextMessageId :: "MessageStorage \<Rightarrow> string \<Rightarrow> 32 word" where
  "GetNextMessageId ms origin = of_nat (length (filter (\<lambda>r. OriginalName r = origin) ms)) + 1"

definition IsNewMessage :: "MessageStorage \<Rightarrow> RumorMessage \<Rightarrow> bool" where
  "IsNewMessage ms rmsg = (ID rmsg = GetNextMessageId ms (OriginalName rmsg))"

definition AddRumorMessage :: "MessageStorage \<Rightarrow> RumorMessage \<Rightarrow> bool \<times> MessageStorage" where
  "AddRumorMessage ms rmsg = (if IsNewMessage ms rmsg then (True, ms @ [rmsg]) else (False, ms))"

definition GetCurrentStatusPacket :: "MessageStorage \<Rightarrow> PeerStatus list" where
  "GetCurrentStatusPacket ms =
     map (\<lambda>origin. \<lparr>Identifier = origin, NextID = GetNextMessageId ms origin\<rparr>)
       (remdups (map OriginalName ms))"

text \<open>
  The state the rumor path reads and writes: the peer slice, the next-hop table, the
  message store and the keys of the global map \<open>statusesChannels\<close> (the peers with a
  mongering session in progress).
\<close>

record rumor_state =
  rs_peers :: "UDPAddr list"
  rs_nextHop :: "string \<rightharpoonup> UDPAddr"
  rs_messageStorage :: MessageStorage
  rs_statusesChannels :: "UDPAddr set"

text \<open>
  What a call leaves behind: the new state, the packets enqueued on \<open>peerMessagesToSend\<close>
  and the mongering goroutines started, each with its rumor and its peer.
\<close>

record rumor_result =
  rr_state :: rumor_state
  rr_sent :: "AddressedGossipPacket list"
  rr_mongering :: "(RumorMessage \<times> UDPAddr) list"

text \<open>
  \<open>rand.Int31n(n)\<close> of the standard library panics for \<open>n \<le> 0\<close> and otherwise returns a
  number in \<open>[0, n)\<close>; \<open>draw\<close> is the generator's choice, reduced to that range.
\<close>

definition Int31n :: "nat \<Rightarrow> int \<Rightarrow> error + int" where
  "Int31n draw n = (if n \<le> 0 then Inl InvalidArgument else Inr (int draw mod n))"

text \<open>The conversion \<open>int32(len(g.peers))\<close>.\<close>

definition int32_of_len :: "'a list \<Rightarrow> int" where
  "int32_of_len xs = sint (of_nat (length xs) :: 32 word)"

definition getRandomPeer :: "nat \<Rightarrow> UDPAddr list \<Rightarrow> error + UDPAddr" where
  "getRandomPeer draw peers =
     (case Int31n draw (int32_of_len peers) of
        Inl e \<Rightarrow> Inl e
      | Inr randomInt \<Rightarrow>
          (if nat randomInt < length peers then Inr (peers ! nat randomInt)
           else Inl IndexOutOfRange))"

definition arePeersEmpty :: "rumor_state \<Rightarrow> bool" where
  "arePeersEmpty st = (length (rs_peers st) = 0)"

definition UpdatePeersIfNeeded :: "UDPAddr list \<Rightarrow> UDPAddr \<Rightarrow> UDPAddr list" where
  "UpdatePeersIfNeeded peers peer = (if peer \<in> set peers then peers else peers @ [peer])"

definition updateNextHop :: "(string \<rightharpoonup> UDPAddr) \<Rightarrow> string \<Rightarrow> UDPAddr \<Rightarrow> (string \<rightharpoonup> UDPAddr)" where
  "updateNextHop nextHop origin relay =
     (case nextHop origin of
        None \<Rightarrow> nextHop(origin \<mapsto> relay)
      | Some addr \<Rightarrow> (if addr \<noteq> relay then nextHop(origin \<mapsto> relay) else nextHop))"

text \<open>\<open>spreadTheRumor\<close>: without a given peer, a random one of the whole peer slice.\<close>

definition spreadTheRumor ::
  "nat \<Rightarrow> rumor_state \<Rightarrow> RumorMessage \<Rightarrow> UDPAddr option \<Rightarrow> error + rumor_result" where
  "spreadTheRumor draw st rmsg peer =
     (case (case peer of None \<Rightarrow> getRandomPeer draw (rs_peers st) | Some p \<Rightarrow> Inr p) of
        Inl e \<Rightarrow> Inl e
      | Inr peer \<Rightarrow>
          (if peer \<in> rs_statusesChannels st
           then Inr \<lparr>rr_state = st, rr_sent = [], rr_mongering = []\<rparr>
           else Inr \<lparr>rr_state = st\<lparr>rs_statusesChannels := insert peer (rs_statusesChannels st)\<rparr>,
                     rr_sent = [(peer, GP_Rumor rmsg)],
                     rr_mongering = [(rmsg, peer)]\<rparr>))"

definition processRumorMessage :: "nat \<Rightarrow> rumor_state \<Rightarrow> RumorMessage \<Rightarrow> error + rumor_result" where
  "processRumorMessage draw st rmsg =
     (let (isNewMessage, ms) = AddRumorMessage (rs_messageStorage st) rmsg;
          st = st\<lparr>rs_messageStorage := ms\<rparr>
      in if isNewMessage then
           (if arePeersEmpty st then Inr \<lparr>rr_state = st, rr_sent = [], rr_mongering = []\<rparr>
            else spreadTheRumor draw st rmsg None)
         else Inr \<lparr>rr_state = st, rr_sent = [], rr_mongering = []\<rparr>)"

definition processAddressedRumorMessage ::
  "nat \<Rightarrow> rumor_state \<Rightarrow> RumorMessage \<Rightarrow> UDPAddr \<Rightarrow> error + rumor_result" where
  "processAddressedRumorMessage draw st rmsg address =
     (let addressedFeedbackStatus =
            (address, GP_Status (GetCurrentStatusPacket (rs_messageStorage st)));
          st = (if IsNewMessage (rs_messageStorage st) rmsg
                then st\<lparr>rs_nextHop := updateNextHop (rs_nextHop st) (OriginalName rmsg) address\<rparr>
                else st)
      in case processRumorMessage draw st rmsg of
           Inl e \<Rightarrow> Inl e
         | Inr r \<Rightarrow> Inr (r\<lparr>rr_sent := addressedFeedbackStatus # rr_sent r\<rparr>))"

text \<open>\<open>processAddressedGossipPacket\<close> on a packet whose \<open>Rumor\<close> field is set.\<close>

definition processAddressedGossipPacket_Rumor ::
  "nat \<Rightarrow> rumor_state \<Rightarrow> RumorMessage \<Rightarrow> UDPAddr \<Rightarrow> error + rumor_result" where
  "processAddressedGossipPacket_Rumor draw st rmsg address =
     processAddressedRumorMessage draw
       (st\<lparr>rs_peers := UpdatePeersIfNeeded (rs_peers st) address\<rparr>) rmsg address"

section \<open>Shared files (models/filesharing/SharedFile.go)\<close>

text \<open>
  The file system the code works on: the regular files with their contents and the
  directories, by path. \<open>os.Mkdir\<close> and \<open>ioutil.WriteFile\<close> are taken to succeed, as the
  code ignores their errors.
\<close>

record filesystem =
  fs_files :: "string \<rightharpoonup> bytes"
  fs_dirs :: "string set"

definition path_exists :: "filesystem \<Rightarrow> string \<Rightarrow> bool" where
  "path_exists fs p = (fs_files fs p \<noteq> None \<or> p \<in> fs_dirs fs)"

definition os_Mkdir :: "filesystem \<Rightarrow> string \<Rightarrow> filesystem" where
  "os_Mkdir fs p = fs\<lparr>fs_dirs := insert p (fs_dirs fs)\<rparr>"

definition mkdir_if_missing :: "filesystem \<Rightarrow> string \<Rightarrow> filesystem" where
  "mkdir_if_missing fs p = (if \<not> path_exists fs p then os_Mkdir fs p else fs)"

definition ioutil_WriteFile :: "filesystem \<Rightarrow> string \<Rightarrow> bytes \<Rightarrow> filesystem" where
  "ioutil_WriteFile fs p data = fs\<lparr>fs_files := (fs_files fs)(p \<mapsto> data)\<rparr>"

definition filepath_Join :: "string \<Rightarrow> string \<Rightarrow> string" where
  "filepath_Join a b = a @ ''/'' @ b"

definition filepath_Base :: "string \<Rightarrow> string" where
  "filepath_Base p = rev (takeWhile (\<lambda>c. c \<noteq> CHR ''/'') (rev p))"

text \<open>\<open>hex.EncodeToString\<close>: two lower-case hexadecimal digits per byte.\<close>

definition hex_digit :: "nat \<Rightarrow> char" where
  "hex_digit d = ''0123456789abcdef'' ! d"

definition hex_EncodeToString :: "bytes \<Rightarrow> string" where
  "hex_EncodeToString bs = concat (map (\<lambda>b. [hex_digit (unat b div 16), hex_digit (unat b mod 16)]) bs)"

text \<open>
  Modelled from the spec: \<open>GetChunkFileName\<close> of the utilities, which are not among the
  sources. "Shared chunks at \<open><shared>/<filename>/<hex(hash)>.chunk\<close>".
\<close>

definition GetChunkFileName :: "bytes \<Rightarrow> string" where
  "GetChunkFileName h = hex_EncodeToString h @ ''.chunk''"

text \<open>\<open>sha256.Sum256\<close> returns a \<open>[32]byte\<close> array.\<close>

definition sha256_Sum256 :: "(bytes \<Rightarrow> bytes) \<Rightarrow> bytes \<Rightarrow> bytes" where
  "sha256_Sum256 sha256 data = copy32 (sha256 data)"

text \<open>The constants of the configuration package that the file code reads; \<open>FileChunkSize\<close> is
  a positive constant.\<close>

record config =
  SharedFilesPath :: string
  SharedFilesChunksPath :: string
  MaxFileSize :: int
  FileChunkSize :: nat

record sharedFile =
  sf_Name :: string
  sf_Size :: int
  sf_MetaHash :: bytes
  sf_MetaSlice :: bytes
  sf_MetaSet :: "bytes set"

text \<open>
  The loop of \<open>shareFile\<close> that splits the file: \<open>i\<close> is the index of the next byte, \<open>n\<close> the
  length of the file, \<open>curChunk\<close> the chunk being filled.
\<close>

fun split_chunks :: "nat \<Rightarrow> nat \<Rightarrow> nat \<Rightarrow> bytes \<Rightarrow> bytes \<Rightarrow> bytes list" where
  "split_chunks chunkSize n i curChunk [] = []"
| "split_chunks chunkSize n i curChunk (b # bs) =
     (let curChunk = curChunk @ [b]
      in if (i + 1) mod chunkSize = 0 \<or> i + 1 = n
         then curChunk # split_chunks chunkSize n (i + 1) [] bs
         else split_chunks chunkSize n (i + 1) curChunk bs)"

text \<open>The loop over the chunks: the metafile, the set of chunk hashes and the chunk files.\<close>

fun hash_chunks ::
  "(bytes \<Rightarrow> bytes) \<Rightarrow> string \<Rightarrow> bytes list \<Rightarrow> bytes \<times> bytes set \<times> filesystem
     \<Rightarrow> bytes \<times> bytes set \<times> filesystem" where
  "hash_chunks sha256 chunksPath [] acc = acc"
| "hash_chunks sha256 chunksPath (chunk # chunks) (MetaSlice, MetaSet, fs) =
     (let chunkHash = sha256_Sum256 sha256 chunk
      in hash_chunks sha256 chunksPath chunks
           (MetaSlice @ chunkHash, insert chunkHash MetaSet,
            ioutil_WriteFile fs (filepath_Join chunksPath (GetChunkFileName chunkHash)) chunk))"

text \<open>\<open>shareFile\<close> on an absolute path: the shared file, or \<open>None\<close> for \<open>nil\<close>, and the file
  system it leaves.\<close>

definition shareFile ::
  "config \<Rightarrow> (bytes \<Rightarrow> bytes) \<Rightarrow> filesystem \<Rightarrow> string \<Rightarrow> sharedFile option \<times> filesystem" where
  "shareFile cfg sha256 fs path =
     (if \<not> path_exists fs path \<or> path \<in> fs_dirs fs then (None, fs)
      else
        (let fs = mkdir_if_missing fs (SharedFilesPath cfg);
             fs = mkdir_if_missing fs (SharedFilesChunksPath cfg);
             name = filepath_Base path;
             chunksPath = filepath_Join (SharedFilesChunksPath cfg) name
         in if path_exists fs chunksPath then (None, fs)
            else
              (let fs = os_Mkdir fs chunksPath
               in case fs_files fs path of
                    None \<Rightarrow> (None, fs)
                  | Some fileBytes \<Rightarrow>
                      (if int (length fileBytes) > MaxFileSize cfg then (None, fs)
                       else
                         (let chunks = split_chunks (FileChunkSize cfg) (length fileBytes) 0 [] fileBytes;
                              (MetaSlice, MetaSet, fs) = hash_chunks sha256 chunksPath chunks ([], {}, fs);
                              MetaHash = sha256_Sum256 sha256 MetaSlice;
                              fs = ioutil_WriteFile fs
                                     (filepath_Join chunksPath (hex_EncodeToString MetaHash) @ ''.metafile'')
                                     MetaSlice
                          in (Some \<lparr>sf_Name = name, sf_Size = int (length fileBytes),
                                     sf_MetaHash = MetaHash, sf_MetaSlice = MetaSlice,
                                     sf_MetaSet = MetaSet\<rparr>, fs))))))"

text \<open>
  The loop of \<open>getSearchResults\<close> that fills \<open>chunkMap\<close>: from \<open>i\<close> while \<open>i \<le> n\<close>, where
  \<open>n\<close> is \<open>len(sf.MetaSet)\<close>, the length the slice was made with.
\<close>

function fill_chunkMap :: "nat \<Rightarrow> nat \<Rightarrow> 64 word list \<Rightarrow> 64 word list" where
  "fill_chunkMap n i chunkMap =
     (if i \<le> n then fill_chunkMap n (i + 1) (chunkMap[i - 1 := of_nat i]) else chunkMap)"
  by pat_completeness auto
termination
  by (relation "measure (\<lambda>(n, i, chunkMap). Suc n - i)") auto

declare fill_chunkMap.simps [simp del]

text \<open>
  \<open>getSearchResults\<close>. \<open>regexp.MatchString\<close> belongs to the standard library: it is the
  parameter \<open>MatchString\<close>, from the pattern and the string to an error or the verdict.
\<close>

definition searchResult_of :: "sharedFile \<Rightarrow> SearchResult" where
  "searchResult_of sf =
     \<lparr>FileName = sf_Name sf, MetafileHash = sf_MetaHash sf,
      ChunkMap = fill_chunkMap (card (sf_MetaSet sf)) 1 (replicate (card (sf_MetaSet sf)) 0),
      ChunkCount = of_nat (card (sf_MetaSet sf))\<rparr>"

fun getSearchResults ::
  "(string \<Rightarrow> string \<Rightarrow> error + bool) \<Rightarrow> sharedFile \<Rightarrow> string list \<Rightarrow> SearchResult list" where
  "getSearchResults MatchString sf [] = []"
| "getSearchResults MatchString sf (kw # keywords) =
     (case MatchString (''.*'' @ kw @ ''.*'') (sf_Name sf) of
        Inr True \<Rightarrow> searchResult_of sf # getSearchResults MatchString sf keywords
      | _ \<Rightarrow> getSearchResults MatchString sf keywords)"

section \<open>A model of regexp.MatchString\<close>

text \<open>
  The general results take \<open>regexp.MatchString\<close> as a parameter. For concrete inputs this
  section models it on a fragment of the library's syntax: ASCII patterns built from
  literal characters, \<open>.\<close> (any character but a newline) and the postfix \<open>*\<close>, matched
  against ASCII strings. As in the library, a \<open>*\<close> without an argument and a \<open>*\<close> that
  follows a \<open>*\<close> are errors of the pattern, and the match is unanchored. On a pattern with
  another metacharacter, or on non-ASCII input, the model answers \<open>OutsideModel\<close>, which
  says nothing about the library.
\<close>

datatype rexp = Zero | Eps | Lit char | Dot | AnyChar | Alt rexp rexp | Seq rexp rexp | Star rexp

fun nullable :: "rexp \<Rightarrow> bool" where
  "nullable Zero = False"
| "nullable Eps = True"
| "nullable (Lit c) = False"
| "nullable Dot = False"
| "nullable AnyChar = False"
| "nullable (Alt r s) = (nullable r \<or> nullable s)"
| "nullable (Seq r s) = (nullable r \<and> nullable s)"
| "nullable (Star r) = True"

fun deriv :: "char \<Rightarrow> rexp \<Rightarrow> rexp" where
  "deriv c Zero = Zero"
| "deriv c Eps = Zero"
| "deriv c (Lit d) = (if c = d then Eps else Zero)"
| "deriv c Dot = (if c = CHR 0x0A then Zero else Eps)"
| "deriv c AnyChar = Eps"
| "deriv c (Alt r s) = Alt (deriv c r) (deriv c s)"
| "deriv c (Seq r s) =
     (if nullable r then Alt (Seq (deriv c r) s) (deriv c s) else Seq (deriv c r) s)"
| "deriv c (Star r) = Seq (deriv c r) (Star r)"

definition matches :: "rexp \<Rightarrow> string \<Rightarrow> bool" where
  "matches r s = nullable (fold deriv s r)"

definition unmodelled_metachars :: "char list" where
  "unmodelled_metachars =
     [CHR 0x5C, CHR ''+'', CHR ''?'', CHR ''('', CHR '')'', CHR ''['', CHR '']'',
      CHR ''{'', CHR ''}'', CHR ''|'', CHR ''^'', CHR ''$'']"

definition is_ascii :: "char \<Rightarrow> bool" where
  "is_ascii c = ((of_char c :: nat) < 128)"

fun parse_regexp :: "string \<Rightarrow> error + rexp" where
  "parse_regexp [] = Inr Eps"
| "parse_regexp (c # cs) =
     (if c \<in> set unmodelled_metachars \<or> \<not> is_ascii c then Inl OutsideModel
      else if c = CHR ''*'' then Inl InvalidArgument
      else
        (let a = (if c = CHR ''.'' then Dot else Lit c)
         in if take 1 cs = ''*'' then
              (if take 1 (drop 1 cs) = ''*'' then Inl InvalidArgument
               else (case parse_regexp (drop 1 cs) of
                       Inl e \<Rightarrow> Inl e
                     | Inr r \<Rightarrow> Inr (Seq (Star a) r)))
            else (case parse_regexp cs of
                    Inl e \<Rightarrow> Inl e
                  | Inr r \<Rightarrow> Inr (Seq a r))))"

definition regexp_MatchString :: "string \<Rightarrow> string \<Rightarrow> error + bool" where
  "regexp_MatchString pattern s =
     (case parse_regexp pattern of
        Inl e \<Rightarrow> Inl e
      | Inr r \<Rightarrow>
          (if list_all is_ascii s
           then Inr (matches (Seq (Star AnyChar) (Seq r (Star AnyChar))) s)
           else Inl OutsideModel))"

text \<open>A small configuration, file system and shared file for concrete runs: chunks of two
  bytes, and one file of five bytes whose first two chunks are equal.\<close>

definition demo_config :: config where
  "demo_config = \<lparr>SharedFilesPath = ''/s'', SharedFilesChunksPath = ''/s/chunks'',
                   MaxFileSize = 2097152, FileChunkSize = 2\<rparr>"

definition demo_filesystem :: filesystem where
  "demo_filesystem = \<lparr>fs_files = [''/f/abc'' \<mapsto> [1, 2, 1, 2, 3]], fs_dirs = {}\<rparr>"

definition demo_sharedFile :: sharedFile where
  "demo_sharedFile =
     \<lparr>sf_Name = ''abc'', sf_Size = 5, sf_MetaHash = replicate 31 0 @ [96],
      sf_MetaSlice = replicate 31 0 @ [2] @ replicate 31 0 @ [2] @ replicate 31 0 @ [1],
      sf_MetaSet = {replicate 31 0 @ [2], replicate 31 0 @ [1]}\<rparr>"

section \<open>Downloading files (DownloadingFile)\<close>

record DataReply =
  DRep_Origin :: string
  DRep_Destination :: string
  DRep_HopLimit :: "32 word"
  DRep_HashValue :: bytes
  DRep_Data :: bytes

text \<open>The record of a download; \<open>Metafile\<close> is \<open>None\<close> while it is \<open>nil\<close>, and the \<open>nil\<close> maps
  are empty sets.\<close>

record DownloadingFile =
  df_Name :: string
  df_MetaHash :: bytes
  df_Metafile :: "bytes option"
  df_ChunksHashesSlice :: "bytes list"
  df_ChunksHashesSet :: "bytes set"
  df_ChunksToDownload :: "bytes set"

definition InitDownloadingFile :: "string \<Rightarrow> bytes \<Rightarrow> DownloadingFile" where
  "InitDownloadingFile name metahash =
     \<lparr>df_Name = name, df_MetaHash = metahash, df_Metafile = None, df_ChunksHashesSlice = [],
      df_ChunksHashesSet = {}, df_ChunksToDownload = {}\<rparr>"

text \<open>The two download directories of the configuration package.\<close>

record downloads_config =
  DownloadsPath :: string
  DownloadsChunksPath :: string

text \<open>
  The loop of \<open>gotMetafile\<close> over the bytes of the metafile: \<open>i\<close> is the index of the next
  byte and \<open>currentChunk\<close> the 32-byte array that is filled and, when full, appended.
\<close>

fun parse_metafile ::
  "nat \<Rightarrow> bytes \<Rightarrow> bytes \<Rightarrow> bytes list \<times> bytes set \<times> bytes set
     \<Rightarrow> bytes list \<times> bytes set \<times> bytes set" where
  "parse_metafile i currentChunk [] acc = acc"
| "parse_metafile i currentChunk (b # metafile) (ChunksHashesSlice, ChunksHashesSet, ChunksToDownload) =
     (let currentChunk = currentChunk[i mod 32 := b]
      in if (i + 1) mod 32 = 0
         then parse_metafile (i + 1) currentChunk metafile
                (ChunksHashesSlice @ [currentChunk], insert currentChunk ChunksHashesSet,
                 insert currentChunk ChunksToDownload)
         else parse_metafile (i + 1) currentChunk metafile
                (ChunksHashesSlice, ChunksHashesSet, ChunksToDownload))"

definition gotMetafile ::
  "downloads_config \<Rightarrow> DownloadingFile \<Rightarrow> filesystem \<Rightarrow> bytes \<Rightarrow> bytes
     \<Rightarrow> DownloadingFile \<times> filesystem" where
  "gotMetafile cfg df fs hashValue metafile =
     (if length metafile mod 32 \<noteq> 0 \<or> hashValue \<noteq> df_MetaHash df then (df, fs)
      else
        (let (ChunksHashesSlice, ChunksHashesSet, ChunksToDownload) =
               parse_metafile 0 (replicate 32 0) metafile ([], {}, {});
             df = df\<lparr>df_Metafile := Some metafile, df_ChunksHashesSlice := ChunksHashesSlice,
                     df_ChunksHashesSet := ChunksHashesSet, df_ChunksToDownload := ChunksToDownload\<rparr>;
             fs = mkdir_if_missing fs (DownloadsPath cfg);
             fs = mkdir_if_missing fs (DownloadsChunksPath cfg);
             fileChunksPath = filepath_Join (DownloadsChunksPath cfg) (df_Name df)
         in if path_exists fs fileChunksPath then (df, fs)
            else
              (let fs = os_Mkdir fs fileChunksPath;
                   metafileName = GetChunkFileName (df_MetaHash df)
               in (df, ioutil_WriteFile fs (filepath_Join fileChunksPath metafileName) metafile))))"

text \<open>The loop of \<open>finishDownloading\<close> that reads the chunks back: \<open>None\<close> when one is missing.\<close>

fun read_chunks :: "filesystem \<Rightarrow> string \<Rightarrow> bytes list \<Rightarrow> bytes \<Rightarrow> bytes option" where
  "read_chunks fs dir [] fileBytes = Some fileBytes"
| "read_chunks fs dir (chunkHash # hs) fileBytes =
     (case fs_files fs (filepath_Join dir (GetChunkFileName chunkHash)) of
        None \<Rightarrow> None
      | Some chunkBytes \<Rightarrow> read_chunks fs dir hs (fileBytes @ chunkBytes))"

definition finishDownloading :: "downloads_config \<Rightarrow> DownloadingFile \<Rightarrow> filesystem \<Rightarrow> filesystem" where
  "finishDownloading cfg df fs =
     (case read_chunks fs (filepath_Join (DownloadsChunksPath cfg) (df_Name df))
             (df_ChunksHashesSlice df) [] of
        None \<Rightarrow> fs
      | Some fileBytes \<Rightarrow>
          ioutil_WriteFile fs (filepath_Join (DownloadsPath cfg) (df_Name df)) fileBytes)"

text \<open>
  \<open>ProcessDataReply\<close>: the result is \<open>None\<close> for the \<open>nil\<close> that reports an error, otherwise
  whether the download is finished; with it the record and the file system it leaves.
\<close>

definition ProcessDataReply ::
  "downloads_config \<Rightarrow> (bytes \<Rightarrow> bytes) \<Rightarrow> DownloadingFile \<Rightarrow> filesystem \<Rightarrow> DataReply
     \<Rightarrow> bool option \<times> DownloadingFile \<times> filesystem" where
  "ProcessDataReply cfg sha256 df fs drpmsg =
     (case GetTypeStrictHash (DRep_HashValue drpmsg) of
        Inl err \<Rightarrow> (None, df, fs)
      | Inr typedHashValue \<Rightarrow>
          (let data = DRep_Data drpmsg
           in if sha256_Sum256 sha256 data \<noteq> typedHashValue then (None, df, fs)
              else if df_Metafile df = None then
                (let (df, fs) = gotMetafile cfg df fs typedHashValue data in (Some False, df, fs))
              else if typedHashValue \<notin> df_ChunksToDownload df then (None, df, fs)
              else
                (let df = df\<lparr>df_ChunksToDownload := df_ChunksToDownload df - {typedHashValue}\<rparr>;
                     chunkFileName = GetChunkFileName typedHashValue;
                     fs = ioutil_WriteFile fs
                            (filepath_Join (filepath_Join (DownloadsChunksPath cfg) (df_Name df))
                               chunkFileName) data
                 in if card (df_ChunksToDownload df) = 0
                    then (Some True, df, finishDownloading cfg df fs)
                    else (Some False, df, fs))))"

section \<open>The blockchain manager (models/blockchain/BlockchainManager.go)\<close>

text \<open>
  Modelled from the spec: the transaction set (\<open>TransactionsSet\<close> is not among the
  sources). "A transaction is (filename, size, metafile-hash)", and \<open>pending\<close> is a
  "transaction set": a set of such triples, with membership, the test whether some member
  reserves a file name, insertion, union and difference.
\<close>

type_synonym TransactionsSet = "File set"


definition contains :: "TransactionsSet \<Rightarrow> TxPublish \<Rightarrow> bool" where
  "contains txs tx = (Tx_File tx \<in> txs)"

definition containsFilename :: "TransactionsSet \<Rightarrow> string \<Rightarrow> bool" where
  "containsFilename txs name = (name \<in> File_Name ` txs)"

definition add :: "TransactionsSet \<Rightarrow> TxPublish \<Rightarrow> TransactionsSet" where
  "add txs tx = insert (Tx_File tx) txs"



text \<open>
  Modelled from the spec: the nodes of the block tree (\<open>blockNode\<close> and its functions are
  not among the sources). "Blockchain node. Tuple (block, parent-pointer, depth,
  transaction-set)", in "a tree with a synthetic genesis (all-zero hash)". A node is the
  genesis or a block with its parent node; the depth counts the blocks down to the
  genesis, the transaction set holds the transactions of the block, and the hash of the
  genesis is all zero. Nodes are never changed once made, so a parent pointer is the parent
  itself and pointer equality is equality.
\<close>

datatype blockNode = FakeBlockNode | BlockNode Block blockNode



fun isFake :: "blockNode \<Rightarrow> bool" where
  "isFake FakeBlockNode = True"
| "isFake (BlockNode b p) = False"


fun txSet :: "blockNode \<Rightarrow> TransactionsSet" where
  "txSet FakeBlockNode = {}"
| "txSet (BlockNode b p) = Tx_File ` set (Transactions b)"




record BlockchainManager =
  bm_tail :: blockNode
  bm_blocks :: "bytes \<rightharpoonup> blockNode"
  bm_pendingTx :: TransactionsSet





text \<open>The loop of \<open>addTransaction\<close> along the official history: whether a block from the
  node down to the genesis holds the transaction or reserves its file name.\<close>

fun registered_in_history :: "blockNode \<Rightarrow> TxPublish \<Rightarrow> bool" where
  "registered_in_history FakeBlockNode tx = False"
| "registered_in_history (BlockNode b p) tx =
     (if contains (txSet (BlockNode b p)) tx then True
      else if containsFilename (txSet (BlockNode b p)) (File_Name (Tx_File tx)) then True
      else registered_in_history p tx)"

definition addTransaction :: "BlockchainManager \<Rightarrow> TxPublish \<Rightarrow> bool \<times> BlockchainManager" where
  "addTransaction bm tx =
     (if contains (bm_pendingTx bm) tx then (False, bm)
      else if containsFilename (bm_pendingTx bm) (File_Name (Tx_File tx)) then (False, bm)
      else if registered_in_history (bm_tail bm) tx then (False, bm)
      else (True, bm\<lparr>bm_pendingTx := add (bm_pendingTx bm) tx\<rparr>))"

text \<open>The blocks of the main chain, from a node down to the genesis, the genesis left out.\<close>

fun main_chain :: "blockNode \<Rightarrow> blockNode list" where
  "main_chain FakeBlockNode = []"
| "main_chain (BlockNode b p) = BlockNode b p # main_chain p"







section \<open>Properties of the hashes\<close>







section \<open>Budget distribution of a forwarded search request\<close>

lemma forward_loop_nth:
  "forward_loop srqmsg budget n residual ps =
     map (\<lambda>i. (ps ! i, GP_SearchRequest
            \<lparr>SReq_Origin = SReq_Origin srqmsg,
             SReq_Budget = uint64_of_int (budget sdiv n + (if int i < residual then 1 else 0)),
             SReq_Keywords = SReq_Keywords srqmsg\<rparr>)) [0..<length ps]"
proof (induction ps arbitrary: residual)
  case Nil
  then show ?case by simp
next
  case (Cons p ps)
  show ?case
  proof (cases "residual > 0")
    case True
    then show ?thesis
      by (simp add: Cons.IH [of "residual - 1"] map_upt_Suc del: upt_Suc) 
  next
    case False
    then show ?thesis
      by (simp add: Cons.IH [of residual] map_upt_Suc del: upt_Suc)
  qed
qed

lemma sdiv_smod_nonneg:
  fixes B n :: int
  assumes "0 \<le> B" "0 < n"
  shows "B sdiv n = B div n" "B smod n = B mod n"
  using assms by (simp_all add: signed_divide_int_def signed_modulo_int_def sgn_if)

text \<open>
  Claim C3, as the code has it. Forwarding a request with remaining budget \<open>B \<ge> 0\<close> across
  the \<open>P > 0\<close> known peers sends one request to every peer, in the order of the peer list:
  the peer at position \<open>i\<close> is assigned \<open>B div P\<close>, plus one if \<open>i < B mod P\<close>. Peers whose
  assigned budget is 0 are sent the request as well.
\<close>

theorem C3_budget_distribution:
  assumes "0 \<le> B" and "peers \<noteq> []"
  shows "forwardSearchRequest srqmsg B peers =
           Inr (map (\<lambda>i. (peers ! i, GP_SearchRequest
                  \<lparr>SReq_Origin = SReq_Origin srqmsg,
                   SReq_Budget = uint64_of_int
                     (B div int (length peers) + (if int i < B mod int (length peers) then 1 else 0)),
                   SReq_Keywords = SReq_Keywords srqmsg\<rparr>)) [0..<length peers])"
proof -
  have n: "0 < int (length peers)" using assms(2) by simp
  show ?thesis
    using assms(2)
    by (simp add: forwardSearchRequest_def Let_def forward_loop_nth
        sdiv_smod_nonneg [OF assms(1) n])
qed

theorem C3_budget_distribution_witness:
  "(0::int) \<le> 5 \<and> [''p1'', ''p2'', ''p3''] \<noteq> []
   \<and> forwardSearchRequest \<lparr>SReq_Origin = ''B'', SReq_Budget = 6, SReq_Keywords = [''x'']\<rparr> 5
         [''p1'', ''p2'', ''p3'']
       = Inr [(''p1'', GP_SearchRequest \<lparr>SReq_Origin = ''B'', SReq_Budget = 2, SReq_Keywords = [''x'']\<rparr>),
              (''p2'', GP_SearchRequest \<lparr>SReq_Origin = ''B'', SReq_Budget = 2, SReq_Keywords = [''x'']\<rparr>),
              (''p3'', GP_SearchRequest \<lparr>SReq_Origin = ''B'', SReq_Budget = 1, SReq_Keywords = [''x'']\<rparr>)]"
proof -
  have a: "(0::int) \<le> 5" by simp
  have b: "[''p1'', ''p2'', ''p3''] \<noteq> []" by simp
  show ?thesis
    using C3_budget_distribution [OF a b, of "\<lparr>SReq_Origin = ''B'', SReq_Budget = 6, SReq_Keywords = [''x'']\<rparr>"]
    by (simp add: uint64_of_int_def upt_rec)
qed

text \<open>
  The claim as stated fails: a node \<open>A\<close> with two peers that receives a request of budget 2
  from origin \<open>B\<close> has budget 1 left, and sends the second peer a request of budget 0.
\<close>

theorem C3_zero_budget_sent_counterexample:
  "processSearchRequest 10
     \<lparr>g_name = ''A'', g_peers = [''127.0.0.1:5001'', ''127.0.0.1:5002''], g_nextHop = Map.empty,
      g_sharedGetSearchResults = (\<lambda>kws. []), g_downloadingGetSearchResults = (\<lambda>kws. [])\<rparr>
     \<lparr>SReq_Origin = ''B'', SReq_Budget = 2, SReq_Keywords = [''x'']\<rparr>
   = Inr [(''127.0.0.1:5001'',
            GP_SearchRequest \<lparr>SReq_Origin = ''B'', SReq_Budget = 1, SReq_Keywords = [''x'']\<rparr>),
          (''127.0.0.1:5002'',
            GP_SearchRequest \<lparr>SReq_Origin = ''B'', SReq_Budget = 0, SReq_Keywords = [''x'']\<rparr>)]"
  by (simp add: processSearchRequest_def forwardSearchRequest_def Let_def int_of_uint64_def
      int64_wrap_def uint64_of_int_def signed_divide_int_def signed_modulo_int_def)

section \<open>The budgets of the expanding search\<close>







section \<open>A search on a node without peers\<close>

text \<open>
  Claim C5 at its failing input. On a node that knows no peer, the first tick of a client
  search with budget 0 reaches \<open>budget % len(g.peers)\<close> with \<open>len(g.peers) = 0\<close>: the
  goroutine panics with an integer division by zero.
\<close>

theorem C5_search_without_peers_panics:
  "processClientSearchRequest 2 32 None \<lparr>CTS_Keywords = [''x''], CTS_Budget = 0\<rparr>
     = Some (startFileSearchingGoroutine 2 32 0)
   \<and> search_tick_dispatch 10
       \<lparr>g_name = ''A'', g_peers = [], g_nextHop = Map.empty,
        g_sharedGetSearchResults = (\<lambda>kws. []), g_downloadingGetSearchResults = (\<lambda>kws. [])\<rparr>
       [''x''] (startFileSearchingGoroutine 2 32 0)
     = Inl DivideByZero"
  by (simp add: processClientSearchRequest_def int_of_uint64_def startFileSearchingGoroutine_def
      search_tick_dispatch_def search_tick_def processSearchRequest_def forwardSearchRequest_def
      uint64_of_int_def)

section \<open>Mongering a newly admitted rumor\<close>

lemma int32_of_len_small: "length xs < 2 ^ 31 \<Longrightarrow> int32_of_len xs = int (length xs)"
proof -
  assume "length xs < 2 ^ 31"
  then have "int (length xs) < int (2 ^ 31)" by (simp only: of_nat_less_iff)
  then have "int (length xs) < 2 ^ 31" by simp
  then have "signed_take_bit 31 (int (length xs)) = int (length xs)"
    by (simp add: signed_take_bit_int_eq_self)
  then show ?thesis by (simp add: int32_of_len_def signed_of_nat)
qed

lemma getRandomPeer_nth:
  assumes "peers \<noteq> []" and "length peers < 2 ^ 31"
  shows "getRandomPeer draw peers = Inr (peers ! (draw mod length peers))"
proof -
  have n: "int32_of_len peers = int (length peers)"
    using assms(2) by (rule int32_of_len_small)
  have pos: "0 < length peers" using assms(1) by simp
  have "nat (int draw mod int (length peers)) = draw mod length peers"
    by (simp add: nat_mod_distrib)
  then show ?thesis
    using pos by (simp add: getRandomPeer_def Int31n_def n)
qed

text \<open>
  Claim C6, as the code has it. For a rumor received from a peer and admitted as new, the
  node draws a random peer from its whole peer slice, to which the source has just been
  added, and starts one mongering session toward that peer, unless a session with it is in
  progress already. The peer drawn may be the source.
\<close>

theorem C6_mongering_peer:
  assumes new: "IsNewMessage (rs_messageStorage st) rmsg"
    and len: "length (UpdatePeersIfNeeded (rs_peers st) address) < 2 ^ 31"
  shows "map_sum id rr_mongering (processAddressedGossipPacket_Rumor draw st rmsg address)
       = Inr (let peers = UpdatePeersIfNeeded (rs_peers st) address;
                  peer = peers ! (draw mod length peers)
              in if peer \<in> rs_statusesChannels st then [] else [(rmsg, peer)])"
proof -
  let ?peers = "UpdatePeersIfNeeded (rs_peers st) address"
  have ne: "?peers \<noteq> []" by (auto simp: UpdatePeersIfNeeded_def)
  have r: "getRandomPeer draw ?peers = Inr (?peers ! (draw mod length ?peers))"
    using ne len by (rule getRandomPeer_nth)
  show ?thesis
    using new ne
    by (simp add: processAddressedGossipPacket_Rumor_def processAddressedRumorMessage_def
        processRumorMessage_def AddRumorMessage_def arePeersEmpty_def spreadTheRumor_def r Let_def)
qed

theorem C6_mongering_peer_witness:
  "IsNewMessage (rs_messageStorage
      \<lparr>rs_peers = [''127.0.0.1:5001'', ''127.0.0.1:5002''], rs_nextHop = Map.empty,
       rs_messageStorage = [], rs_statusesChannels = {}\<rparr>)
      \<lparr>OriginalName = ''X'', ID = 1, Text = ''hi''\<rparr>
   \<and> map_sum id rr_mongering
       (processAddressedGossipPacket_Rumor 3
          \<lparr>rs_peers = [''127.0.0.1:5001'', ''127.0.0.1:5002''], rs_nextHop = Map.empty,
           rs_messageStorage = [], rs_statusesChannels = {}\<rparr>
          \<lparr>OriginalName = ''X'', ID = 1, Text = ''hi''\<rparr> ''127.0.0.1:5001'')
     = Inr [(\<lparr>OriginalName = ''X'', ID = 1, Text = ''hi''\<rparr>, ''127.0.0.1:5002'')]"
proof -
  let ?st = "\<lparr>rs_peers = [''127.0.0.1:5001'', ''127.0.0.1:5002''], rs_nextHop = Map.empty,
              rs_messageStorage = [], rs_statusesChannels = {}\<rparr>"
  let ?r = "\<lparr>OriginalName = ''X'', ID = 1, Text = ''hi''\<rparr>"
  have new: "IsNewMessage (rs_messageStorage ?st) ?r"
    by (simp add: IsNewMessage_def GetNextMessageId_def)
  have len: "length (UpdatePeersIfNeeded (rs_peers ?st) ''127.0.0.1:5001'') < 2 ^ 31"
    by (simp add: UpdatePeersIfNeeded_def)
  show ?thesis
    using C6_mongering_peer [OF new len, of 3] new
    by (simp add: UpdatePeersIfNeeded_def Let_def flip: numeral_2_eq_2)
qed

text \<open>
  The claim as stated fails: a node with the peers \<open>127.0.0.1:5001\<close> and
  \<open>127.0.0.1:5002\<close> that admits a new rumor from the first one starts, when the draw is 0,
  its mongering session toward that same peer, although another peer exists.
\<close>

theorem C6_mongers_with_source_counterexample:
  "map_sum id rr_mongering
     (processAddressedGossipPacket_Rumor 0
        \<lparr>rs_peers = [''127.0.0.1:5001'', ''127.0.0.1:5002''], rs_nextHop = Map.empty,
         rs_messageStorage = [], rs_statusesChannels = {}\<rparr>
        \<lparr>OriginalName = ''X'', ID = 1, Text = ''hi''\<rparr> ''127.0.0.1:5001'')
   = Inr [(\<lparr>OriginalName = ''X'', ID = 1, Text = ''hi''\<rparr>, ''127.0.0.1:5001'')]"
  by (simp add: processAddressedGossipPacket_Rumor_def processAddressedRumorMessage_def
        processRumorMessage_def AddRumorMessage_def arePeersEmpty_def spreadTheRumor_def Let_def
        IsNewMessage_def GetNextMessageId_def UpdatePeersIfNeeded_def getRandomPeer_def
        Int31n_def int32_of_len_def)

section \<open>Search results of a shared file\<close>

lemma getSearchResults_filter:
  "getSearchResults M sf kws =
     map (\<lambda>kw. searchResult_of sf)
       (filter (\<lambda>kw. M (''.*'' @ kw @ ''.*'') (sf_Name sf) = Inr True) kws)"
  by (induction kws) (auto split: sum.splits)

text \<open>
  Claim C4, as the code has it. The name of a shared file is reported as a search match if
  and only if, for at least one keyword \<open>kw\<close>, the regular expression \<open>.*kw.*\<close> compiles
  and matches the file name: a keyword is read as a regular expression, not as a plain
  substring.
\<close>

theorem C4_reported_iff_regexp_match:
  "(sf_Name sf \<in> FileName ` set (getSearchResults M sf kws))
     = list_ex (\<lambda>kw. M (''.*'' @ kw @ ''.*'') (sf_Name sf) = Inr True) kws"
  by (auto simp: getSearchResults_filter searchResult_of_def list_ex_iff image_iff)

text \<open>
  The claim as stated fails: the keyword \<open>a.c\<close> is not a substring of the file name
  \<open>abc\<close>, and the file is reported all the same.
\<close>

theorem C4_regexp_not_substring_counterexample:
  "map FileName
     (getSearchResults regexp_MatchString
        \<lparr>sf_Name = ''abc'', sf_Size = 0, sf_MetaHash = replicate 32 0, sf_MetaSlice = [],
         sf_MetaSet = {}\<rparr> [''a.c''])
     = [''abc'']
   \<and> \<not> sublist ''a.c'' ''abc''"
  by (simp add: regexp_MatchString_def matches_def unmodelled_metachars_def is_ascii_def
      searchResult_of_def sublist_Cons_right prefix_Cons)

lemma fill_chunkMap_take:
  "1 \<le> i \<Longrightarrow> i \<le> Suc n \<Longrightarrow> length chunkMap = n \<Longrightarrow>
   fill_chunkMap n i chunkMap = take (i - 1) chunkMap @ map of_nat [i..<Suc n]"
proof (induction n i chunkMap rule: fill_chunkMap.induct)
  case (1 n i chunkMap)
  show ?case
  proof (cases "i \<le> n")
    case True
    let ?cm = "chunkMap[i - 1 := of_nat i]"
    have ih: "fill_chunkMap n (i + 1) ?cm = take i ?cm @ map of_nat [i + 1..<Suc n]"
      using "1.IH" [OF True] "1.prems" True by simp
    have lt: "i - 1 < length chunkMap"
      using "1.prems" True by simp
    have "take (Suc (i - 1)) ?cm = take (i - 1) ?cm @ [?cm ! (i - 1)]"
      using lt by (simp add: take_Suc_conv_app_nth)
    moreover have "Suc (i - 1) = i" using "1.prems" by simp
    ultimately have t: "take i ?cm = take (i - 1) chunkMap @ [of_nat i]"
      using lt by simp
    have u: "[i..<Suc n] = i # [i + 1..<Suc n]"
      using True by (simp add: upt_rec)
    show ?thesis
      using True by (subst fill_chunkMap.simps) (simp only: ih t u if_True list.map append.simps append_assoc)
  next
    case False
    with "1.prems" have "i = Suc n" by simp
    then show ?thesis
      using "1.prems" by (subst fill_chunkMap.simps) simp
  qed
qed

lemma fill_chunkMap_eq:
  "fill_chunkMap n 1 (replicate n 0) = map of_nat [1..<Suc n]"
  using fill_chunkMap_take [of 1 n "replicate n 0"] by simp

lemma hash_chunks_result:
  "hash_chunks sha256 p chunks (ms, S, fs) = (ms', S', fs') \<Longrightarrow>
   S' = S \<union> set (map (sha256_Sum256 sha256) chunks)
   \<and> ms' = ms @ concat (map (sha256_Sum256 sha256) chunks)"
proof (induction chunks arbitrary: ms S fs)
  case Nil
  then show ?case by simp
next
  case (Cons c chunks)
  let ?h = "sha256_Sum256 sha256 c"
  from Cons.prems have
    "hash_chunks sha256 p chunks
       (ms @ ?h, insert ?h S, ioutil_WriteFile fs (filepath_Join p (GetChunkFileName ?h)) c)
     = (ms', S', fs')"
    by (simp add: Let_def)
  from Cons.IH [OF this] show ?case by auto
qed


lemma fs_files_mkdir [simp]:
  "fs_files (os_Mkdir fs p) = fs_files fs" "fs_files (mkdir_if_missing fs p) = fs_files fs"
  by (simp_all add: mkdir_if_missing_def os_Mkdir_def)

lemma shareFile_MetaSet:
  assumes "fst (shareFile cfg sha256 fs path) = Some sf" and "fs_files fs path = Some fileBytes"
  shows "sf_MetaSet sf =
           set (map (sha256_Sum256 sha256)
                  (split_chunks (FileChunkSize cfg) (length fileBytes) 0 [] fileBytes))"
proof -
  let ?chunks = "split_chunks (FileChunkSize cfg) (length fileBytes) 0 [] fileBytes"
  let ?fs1 = "mkdir_if_missing (mkdir_if_missing fs (SharedFilesPath cfg)) (SharedFilesChunksPath cfg)"
  let ?chunksPath = "filepath_Join (SharedFilesChunksPath cfg) (filepath_Base path)"
  obtain ms S fs' where h: "hash_chunks sha256 ?chunksPath ?chunks ([], {}, os_Mkdir ?fs1 ?chunksPath) = (ms, S, fs')"
    by (metis prod_cases3)
  have S: "S = set (map (sha256_Sum256 sha256) ?chunks)"
    using hash_chunks_result [OF h] by simp
  have "sf_MetaSet sf = S"
    using assms h
    by (auto simp add: shareFile_def Let_def split: if_splits)
  with S show ?thesis by simp
qed

text \<open>
  Claim C10. For a file shared by \<open>shareFile\<close>, every search result has \<open>ChunkCount\<close> the
  number of distinct chunk hashes of the file and \<open>ChunkMap = [1, ..., ChunkCount]\<close>, so
  \<open>len(ChunkMap) == ChunkCount\<close> and the result counts as a full match; and when the file
  has a chunk twice, \<open>ChunkCount\<close> is smaller than its number of chunks.
\<close>

theorem C10_search_result_chunks:
  assumes "fst (shareFile cfg sha256 fs path) = Some sf"
    and "fs_files fs path = Some fileBytes"
    and "r \<in> set (getSearchResults MatchString sf keywords)"
  shows "let chunks = split_chunks (FileChunkSize cfg) (length fileBytes) 0 [] fileBytes;
             n = card (set (map (sha256_Sum256 sha256) chunks))
         in ChunkCount r = of_nat n
          \<and> ChunkMap r = map of_nat [1..<Suc n]
          \<and> length (ChunkMap r) = n
          \<and> (of_nat (length (ChunkMap r)) :: 64 word) = ChunkCount r
          \<and> (\<not> distinct chunks \<longrightarrow> unat (ChunkCount r) < length chunks)"
proof -
  let ?chunks = "split_chunks (FileChunkSize cfg) (length fileBytes) 0 [] fileBytes"
  let ?n = "card (set (map (sha256_Sum256 sha256) ?chunks))"
  have ms: "card (sf_MetaSet sf) = ?n"
    using shareFile_MetaSet [OF assms(1,2)] by simp
  have r: "r = searchResult_of sf"
    using assms(3) by (auto simp: getSearchResults_filter)
  have cc: "ChunkCount r = of_nat ?n"
    by (simp add: r searchResult_of_def ms)
  have "ChunkMap r = fill_chunkMap (card (sf_MetaSet sf)) 1 (replicate (card (sf_MetaSet sf)) 0)"
    by (simp add: r searchResult_of_def del: One_nat_def)
  also have "\<dots> = map of_nat [1..<Suc (card (sf_MetaSet sf))]"
    by (rule fill_chunkMap_eq)
  finally have cm: "ChunkMap r = map of_nat [1..<Suc ?n]"
    by (simp only: ms)
  have len: "length (ChunkMap r) = ?n"
    by (simp add: cm del: upt_Suc)
  have dup: "unat (ChunkCount r) < length ?chunks" if "\<not> distinct ?chunks"
  proof -
    have "unat (ChunkCount r) \<le> ?n"
      by (simp add: cc unat_of_nat)
    also have "?n \<le> card (set ?chunks)"
      by (simp add: card_image_le)
    also have "card (set ?chunks) < length ?chunks"
      using that card_distinct [of ?chunks] card_length [of ?chunks] by linarith
    finally show ?thesis .
  qed
  have full: "(of_nat (length (ChunkMap r)) :: 64 word) = ChunkCount r"
    by (simp only: len cc)
  show ?thesis
    unfolding Let_def using cc cm len full dup by blast
qed

theorem C10_search_result_chunks_witness:
  "fst (shareFile demo_config length_digest demo_filesystem ''/f/abc'') = Some demo_sharedFile
   \<and> fs_files demo_filesystem ''/f/abc'' = Some [1, 2, 1, 2, 3]
   \<and> searchResult_of demo_sharedFile
       \<in> set (getSearchResults regexp_MatchString demo_sharedFile [''b''])
   \<and> ChunkCount (searchResult_of demo_sharedFile) = 2
   \<and> ChunkMap (searchResult_of demo_sharedFile) = [1, 2]
   \<and> \<not> distinct (split_chunks 2 5 0 [] [1, 2, 1, 2, 3])
   \<and> unat (ChunkCount (searchResult_of demo_sharedFile)) < 3"
proof -
  have h1: "fst (shareFile demo_config length_digest demo_filesystem ''/f/abc'') = Some demo_sharedFile"
    by (simp add: shareFile_def demo_config_def demo_filesystem_def demo_sharedFile_def
        path_exists_def mkdir_if_missing_def os_Mkdir_def filepath_Join_def filepath_Base_def
        Let_def sha256_Sum256_def length_digest_def copy32_def ioutil_WriteFile_def insert_commute)
  have h2: "fs_files demo_filesystem ''/f/abc'' = Some [1, 2, 1, 2, 3]"
    by (simp add: demo_filesystem_def)
  have h3: "searchResult_of demo_sharedFile
      \<in> set (getSearchResults regexp_MatchString demo_sharedFile [''b''])"
    by (simp add: demo_sharedFile_def regexp_MatchString_def matches_def unmodelled_metachars_def
        is_ascii_def)
  have chunks: "split_chunks (FileChunkSize demo_config) (length [1, 2, 1, 2, 3 :: byte]) 0 []
      [1, 2, 1, 2, 3] = [[1, 2], [1, 2], [3]]"
    by (simp add: demo_config_def Let_def)
  have n: "card (set (map (sha256_Sum256 length_digest) [[1, 2], [1, 2], [3 :: byte]])) = 2"
    by (simp add: sha256_Sum256_def length_digest_def copy32_def)
  note c = C10_search_result_chunks [OF h1 h2 h3, unfolded Let_def chunks n]
  have d: "\<not> distinct (split_chunks 2 5 0 [] [1, 2, 1, 2, 3 :: byte])"
    by (simp add: Let_def)
  from c have "ChunkCount (searchResult_of demo_sharedFile) = 2"
    and "ChunkMap (searchResult_of demo_sharedFile) = [1, 2]"
    and "unat (ChunkCount (searchResult_of demo_sharedFile)) < 3"
    by (simp_all add: upt_rec)
  with h1 h2 h3 d show ?thesis by blast
qed

section \<open>A data reply that fails the hash check\<close>

text \<open>
  Claim C8. When the data of a reply does not hash to the hash value the reply carries,
  \<open>ProcessDataReply\<close> returns the error result and leaves the downloading-file record, and
  the files on disk, as they were.
\<close>

theorem C8_bad_hash_rejected:
  assumes "sha256_Sum256 sha256 (DRep_Data drpmsg) \<noteq> DRep_HashValue drpmsg"
  shows "ProcessDataReply cfg sha256 df fs drpmsg = (None, df, fs)"
  using assms
  by (simp add: ProcessDataReply_def GetTypeStrictHash_def Let_def)

theorem C8_bad_hash_rejected_witness:
  "sha256_Sum256 length_digest
      (DRep_Data \<lparr>DRep_Origin = ''D'', DRep_Destination = ''E'', DRep_HopLimit = 10,
                   DRep_HashValue = replicate 32 0, DRep_Data = [1, 2, 3]\<rparr>)
     \<noteq> DRep_HashValue \<lparr>DRep_Origin = ''D'', DRep_Destination = ''E'', DRep_HopLimit = 10,
                   DRep_HashValue = replicate 32 0, DRep_Data = [1, 2, 3]\<rparr>
   \<and> ProcessDataReply \<lparr>DownloadsPath = ''/d'', DownloadsChunksPath = ''/d/chunks''\<rparr> length_digest
       (InitDownloadingFile ''f'' (replicate 32 0)) demo_filesystem
       \<lparr>DRep_Origin = ''D'', DRep_Destination = ''E'', DRep_HopLimit = 10,
        DRep_HashValue = replicate 32 0, DRep_Data = [1, 2, 3]\<rparr>
     = (None, InitDownloadingFile ''f'' (replicate 32 0), demo_filesystem)"
proof -
  let ?d = "\<lparr>DRep_Origin = ''D'', DRep_Destination = ''E'', DRep_HopLimit = 10,
             DRep_HashValue = replicate 32 0, DRep_Data = [1, 2, 3]\<rparr>"
  have "last (sha256_Sum256 length_digest (DRep_Data ?d)) \<noteq> last (DRep_HashValue ?d)"
    by (simp add: sha256_Sum256_def length_digest_def copy32_def)
  then have h: "sha256_Sum256 length_digest (DRep_Data ?d) \<noteq> DRep_HashValue ?d"
    by metis
  from h C8_bad_hash_rejected [OF h] show ?thesis by blast
qed

section \<open>Accepting a transaction\<close>

lemma registered_in_history_main_chain:
  "registered_in_history n tx =
     list_ex (\<lambda>m. contains (txSet m) tx \<or> containsFilename (txSet m) (File_Name (Tx_File tx)))
       (main_chain n)"
  by (induction n) auto

text \<open>
  Claim C7. \<open>addTransaction\<close> returns true, and then adds the transaction to \<open>pending\<close>,
  if and only if the transaction is not in \<open>pending\<close>, no pending transaction reserves
  its file name, and no block of the main chain from the tail down to the genesis contains
  it or reserves its file name; when it returns false the manager, \<open>pending\<close> included,
  is unchanged.
\<close>

theorem C7_addTransaction_accepts_iff_new:
  "fst (addTransaction bm tx) =
     (\<not> contains (bm_pendingTx bm) tx
      \<and> \<not> containsFilename (bm_pendingTx bm) (File_Name (Tx_File tx))
      \<and> \<not> list_ex (\<lambda>n. contains (txSet n) tx \<or> containsFilename (txSet n) (File_Name (Tx_File tx)))
            (main_chain (bm_tail bm)))
   \<and> snd (addTransaction bm tx) =
       (if fst (addTransaction bm tx) then bm\<lparr>bm_pendingTx := add (bm_pendingTx bm) tx\<rparr> else bm)"
  by (simp add: addTransaction_def registered_in_history_main_chain)

section \<open>A fork that becomes the longest chain\<close>









lemma demo_digest_eq:
  "(replicate 31 (0::byte) @ [a] = replicate 31 0 @ [b]) = (a = b)"
  by simp




end
